theory Spec2Isabelle
  imports Complex_Main
begin

section \<open>Data model\<close>

text \<open>
  The notebook \<^verbatim>\<open>examples/06-Finetuning/finetuning.ipynb\<close> works on results mappings
  loaded from the run directories:
  \<^verbatim>\<open>basin identifier -> temporal resolution -> metric name -> score\<close>.
  The outer dictionary is iterated (\<^verbatim>\<open>.values()\<close>, \<^verbatim>\<open>.items()\<close>), so its insertion
  order matters and it is an association list; a dictionary has each key once, which is
  the predicate \<open>wf_results\<close>. The two inner dictionaries are only looked up and are maps.

  A score is a float of Python and NumPy, an IEEE 754 binary64 value: a finite double
  (\<open>Fin x\<close>, where the real number \<open>x\<close> is the value of the double), one of the two
  infinities, or NaN. The sign of zero is not kept: the cells compare and average
  scores, and neither can tell the two zeros apart.
\<close>

datatype float64 = Fin real | PInf | NInf | NaN

type_synonym metrics = "string \<rightharpoonup> float64"
type_synonym basin_record = "string \<rightharpoonup> metrics"
type_synonym results = "(string \<times> basin_record) list"


text \<open>
  The exceptions the cells can raise: \<^verbatim>\<open>KeyError\<close> of a dictionary subscript, carrying
  the key, and the \<^verbatim>\<open>ValueError\<close> that \<^verbatim>\<open>np.random.choice\<close> raises on an empty sequence.
\<close>

datatype error = KeyError string | ValueError

section \<open>Arithmetic of doubles\<close>

text \<open>
  Rounding of a real number to binary64, to nearest with ties to even. \<open>binade x k\<close>
  is the exponent of \<open>x\<close>, searched downwards from \<open>k - 1022\<close> and not below the
  exponent \<open>-1022\<close> of the subnormal numbers; the doubles of that binade are the
  multiples of \<open>2\<close> to the power \<open>e - 52\<close>. A result of magnitude \<open>2 ^ 1024\<close> or more
  is an infinity.
\<close>

definition pow2 :: "int \<Rightarrow> real" where
  "pow2 e = (if 0 \<le> e then 2 ^ nat e else 1 / 2 ^ nat (- e))"

fun binade :: "real \<Rightarrow> nat \<Rightarrow> int" where
  "binade x 0 = - 1022"
| "binade x (Suc k) =
     (if pow2 (int (Suc k) - 1022) \<le> \<bar>x\<bar> then int (Suc k) - 1022 else binade x k)"

definition round_half_even :: "real \<Rightarrow> int" where
  "round_half_even x =
     (let f = \<lfloor>x\<rfloor>; d = x - of_int f in
      if d < 1 / 2 then f else if 1 / 2 < d then f + 1 else if even f then f else f + 1)"

definition fl :: "real \<Rightarrow> float64" where
  "fl x =
     (let e = binade x 2045;
          ulp = pow2 (e - 52);
          y = of_int (round_half_even (x / ulp)) * ulp
      in if pow2 1024 \<le> y then PInf else if y \<le> - pow2 1024 then NInf else Fin y)"

text \<open>The sum of two floats.\<close>

fun fadd :: "float64 \<Rightarrow> float64 \<Rightarrow> float64" where
  "fadd NaN y = NaN"
| "fadd x NaN = NaN"
| "fadd PInf NInf = NaN"
| "fadd NInf PInf = NaN"
| "fadd PInf y = PInf"
| "fadd x PInf = PInf"
| "fadd NInf y = NInf"
| "fadd x NInf = NInf"
| "fadd (Fin x) (Fin y) = fl (x + y)"

text \<open>\<^verbatim>\<open>np.mean\<close> of two floats: their sum, divided by the count.\<close>

definition mean2 :: "float64 \<Rightarrow> float64 \<Rightarrow> float64" where
  "mean2 a b = (case fadd a b of Fin s \<Rightarrow> fl (s / 2) | t \<Rightarrow> t)"

text \<open>\<^verbatim>\<open>x < y\<close> on floats: every comparison with NaN is false.\<close>

fun below :: "float64 \<Rightarrow> float64 \<Rightarrow> bool" where
  "below (Fin x) (Fin y) = (x < y)"
| "below (Fin x) PInf = True"
| "below NInf (Fin y) = True"
| "below NInf PInf = True"
| "below x y = False"

text \<open>Floats without NaN in ascending order.\<close>

fun insert_sorted :: "float64 \<Rightarrow> float64 list \<Rightarrow> float64 list" where
  "insert_sorted x [] = [x]"
| "insert_sorted x (y # ys) = (if below y x then y # insert_sorted x ys else x # y # ys)"

fun sort_floats :: "float64 list \<Rightarrow> float64 list" where
  "sort_floats [] = []"
| "sort_floats (x # xs) = insert_sorted x (sort_floats xs)"

section \<open>Cell 7: the basin selector\<close>

text \<open>
  \<^verbatim>\<open>[v["1D"]["NSE"] for v in validation_results.values() if "NSE" in v["1D"].keys()]\<close>
  The metric name, the literal \<^verbatim>\<open>"NSE"\<close> of the notebook, is the parameter \<open>m\<close>.
  The subscript \<^verbatim>\<open>v["1D"]\<close> is evaluated for every record, before the membership test.
\<close>

fun metric_values :: "string \<Rightarrow> basin_record list \<Rightarrow> error + float64 list" where
  "metric_values m [] = Inr []"
| "metric_values m (v # vs) =
     (case v ''1D'' of
        None \<Rightarrow> Inl (KeyError ''1D'')
      | Some d \<Rightarrow>
          (case metric_values m vs of
             Inl e \<Rightarrow> Inl e
           | Inr xs \<Rightarrow> (case d m of None \<Rightarrow> Inr xs | Some x \<Rightarrow> Inr (x # xs))))"

text \<open>
  \<^verbatim>\<open>np.median\<close> of a one-dimensional sequence of floats: NaN for an empty sequence and
  for one that holds a NaN; otherwise the middle element of the values in ascending
  order (\<^verbatim>\<open>np.mean\<close> of that single double, which is the double itself), or, when there
  is an even number of them, \<^verbatim>\<open>np.mean\<close> of the two middle elements.
\<close>

definition median :: "float64 list \<Rightarrow> float64" where
  "median xs =
     (let s = sort_floats xs; n = length s in
      if n = 0 then NaN
      else if NaN \<in> set xs then NaN
      else if n mod 2 = 1 then s ! (n div 2)
      else mean2 (s ! (n div 2 - 1)) (s ! (n div 2)))"

definition median_nse :: "string \<Rightarrow> results \<Rightarrow> error + float64" where
  "median_nse m vr =
     (case metric_values m (map snd vr) of Inl e \<Rightarrow> Inl e | Inr xs \<Rightarrow> Inr (median xs))"

text \<open>
  \<^verbatim>\<open>
  basins = []
  for k, v in validation_results.items():
      if ("NSE" in v["1D"].keys()) and (v["1D"]["NSE"] < median_nse):
          basins.append(k)
  \<close>
\<close>

fun select_loop :: "string \<Rightarrow> float64 \<Rightarrow> results \<Rightarrow> string list \<Rightarrow> error + string list" where
  "select_loop m med [] basins = Inr basins"
| "select_loop m med ((k, v) # kvs) basins =
     (case v ''1D'' of
        None \<Rightarrow> Inl (KeyError ''1D'')
      | Some d \<Rightarrow>
          (case d m of
             None \<Rightarrow> select_loop m med kvs basins
           | Some x \<Rightarrow>
               if below x med then select_loop m med kvs (basins @ [k])
               else select_loop m med kvs basins))"

definition qualifying_basins :: "string \<Rightarrow> results \<Rightarrow> error + string list" where
  "qualifying_basins m vr =
     (case median_nse m vr of Inl e \<Rightarrow> Inl e | Inr med \<Rightarrow> select_loop m med vr [])"

text \<open>
  \<^verbatim>\<open>np.random.choice(basins)\<close> raises \<^verbatim>\<open>ValueError\<close> on an empty sequence. Otherwise it
  turns the list into a NumPy array of fixed-width strings, draws an index from
  \<open>0 ..< len(basins)\<close> and returns the item of the array at that index. Reading an item
  of a fixed-width string array drops the NUL characters at its end (\<open>np_str\<close>), so the
  value returned is the chosen string without its trailing NUL characters.
  The random source is the parameter \<open>r\<close>, the raw draw of the generator; the index is
  \<open>r mod len(basins)\<close>, so that every index of the range, and no other, can be drawn.
\<close>

definition nul :: char where
  "nul = CHR 0x00"

definition np_str :: "string \<Rightarrow> string" where
  "np_str s = rev (dropWhile (\<lambda>c. c = nul) (rev s))"

definition random_choice :: "nat \<Rightarrow> string list \<Rightarrow> error + string" where
  "random_choice r xs =
     (if xs = [] then Inl ValueError else Inr (np_str (xs ! (r mod length xs))))"

definition basin_selector :: "string \<Rightarrow> results \<Rightarrow> nat \<Rightarrow> error + string" where
  "basin_selector m vr r =
     (case qualifying_basins m vr of Inl e \<Rightarrow> Inl e | Inr basins \<Rightarrow> random_choice r basins)"

text \<open>\<^verbatim>\<open>results[basin]["1D"]["NSE"]\<close>, the chained subscript of cells 7 and 21.\<close>

definition lookup_metric :: "results \<Rightarrow> string \<Rightarrow> string \<Rightarrow> error + float64" where
  "lookup_metric res basin m =
     (case map_of res basin of
        None \<Rightarrow> Inl (KeyError basin)
      | Some v \<Rightarrow>
          (case v ''1D'' of
             None \<Rightarrow> Inl (KeyError ''1D'')
           | Some d \<Rightarrow> (case d m of None \<Rightarrow> Inl (KeyError m) | Some x \<Rightarrow> Inr x)))"

section \<open>Cell 11: configuration augmentation and basin-list emission\<close>

text \<open>
  A \<^verbatim>\<open>pathlib\<close> path on a POSIX system: its root, which is empty for a relative path
  and one slash or exactly two slashes for an absolute one, and its components.
  \<^verbatim>\<open>str(p)\<close> is the root followed by the components joined with a slash, and a dot for
  the empty relative path; \<^verbatim>\<open>p.absolute()\<close> is \<open>p\<close> itself when it has a root, and the
  working directory joined with \<open>p\<close> otherwise.
\<close>

datatype path = Path (anchor: string) (parts: "string list")

definition is_absolute :: "path \<Rightarrow> bool" where
  "is_absolute p = (anchor p \<noteq> [])"

fun join_parts :: "string list \<Rightarrow> string" where
  "join_parts [] = []"
| "join_parts [p] = p"
| "join_parts (p # ps) = p @ ''/'' @ join_parts ps"

definition path_str :: "path \<Rightarrow> string" where
  "path_str p =
     (if anchor p = [] \<and> parts p = [] then ''.'' else anchor p @ join_parts (parts p))"

definition absolute :: "path \<Rightarrow> path \<Rightarrow> path" where
  "absolute cwd p = (if is_absolute p then p else Path (anchor cwd) (parts cwd @ parts p))"

text \<open>
  The files of the working directory: a map from file name to content. Opening with
  mode \<^verbatim>\<open>"w"\<close> truncates or creates the file; mode \<^verbatim>\<open>"a"\<close> creates it when it is
  missing and writes at its end.
\<close>

type_synonym files = "string \<rightharpoonup> string"

definition file_content :: "files \<Rightarrow> string \<Rightarrow> string" where
  "file_content fs name = (case fs name of None \<Rightarrow> [] | Some c \<Rightarrow> c)"

definition write_file :: "string \<Rightarrow> string \<Rightarrow> files \<Rightarrow> files" where
  "write_file name s fs = fs(name \<mapsto> s)"

definition append_file :: "string \<Rightarrow> string \<Rightarrow> files \<Rightarrow> files" where
  "append_file name s fs = fs(name \<mapsto> file_content fs name @ s)"

text \<open>
  \<^verbatim>\<open>
  with open("finetune.yml", "a") as fp:
      fp.write(f"base_run_dir: {run_dir.absolute()}")
  \<close>
\<close>

definition base_run_entry :: "path \<Rightarrow> path \<Rightarrow> string" where
  "base_run_entry cwd run_dir = ''base_run_dir: '' @ path_str (absolute cwd run_dir)"

definition config_augmentation :: "path \<Rightarrow> path \<Rightarrow> files \<Rightarrow> files" where
  "config_augmentation cwd run_dir fs = append_file ''finetune.yml'' (base_run_entry cwd run_dir) fs"

text \<open>
  \<^verbatim>\<open>
  with open("finetune_basin.txt", "w") as fp:
      fp.write(basin)
  \<close>
\<close>

definition basin_list_emission :: "string \<Rightarrow> files \<Rightarrow> files" where
  "basin_list_emission basin fs = write_file ''finetune_basin.txt'' basin fs"

text \<open>
  Modelled from the spec: the reader's side of the configuration document. The loader of
  the library is not part of the notebook; the spec describes a key-value document to
  which a mapping entry is appended. Only its division into lines is modelled: the lines
  of a text are the pieces between line feeds, the last one with or without a
  terminating line feed.
\<close>

definition nl :: char where
  "nl = CHR 0x0A"

fun split_lines :: "string \<Rightarrow> string list" where
  "split_lines [] = []"
| "split_lines (c # cs) =
     (if c = nl then [] # split_lines cs
      else (case split_lines cs of [] \<Rightarrow> [[c]] | l # ls \<Rightarrow> (c # l) # ls))"

text \<open>
  Modelled from the spec: the entries of the key-value document for one key, which are
  the lines that start with the key, a colon and a space.
\<close>

definition key_lines :: "string \<Rightarrow> string \<Rightarrow> string list" where
  "key_lines key doc = filter (\<lambda>l. take (length key + 2) l = key @ '': '') (split_lines doc)"

section \<open>Cell 21: result comparison\<close>

text \<open>
  \<^verbatim>\<open>
  base_model_nse = base_model_results[basin]['1D']['NSE']
  finetune_nse = finetuned_results[basin]["1D"]["NSE"]
  \<close>
  The two values are then printed; the comparison reports the pair.
\<close>

definition result_comparison :: "results \<Rightarrow> results \<Rightarrow> string \<Rightarrow> string \<Rightarrow> error + float64 \<times> float64" where
  "result_comparison base_model_results finetuned_results basin m =
     (case lookup_metric base_model_results basin m of
        Inl e \<Rightarrow> Inl e
      | Inr base_model_nse \<Rightarrow>
          (case lookup_metric finetuned_results basin m of
             Inl e \<Rightarrow> Inl e
           | Inr finetune_nse \<Rightarrow> Inr (base_model_nse, finetune_nse)))"

section \<open>Concrete inputs\<close>

text \<open>
  The scores of four basins, \<^verbatim>\<open>{"A": 0.5, "B": 0.6, "C": 0.7, "D": 0.8}\<close>, as a results
  mapping. A decimal literal of Python denotes the double nearest to it.
\<close>

definition nse_record :: "float64 \<Rightarrow> basin_record" where
  "nse_record x = [''1D'' \<mapsto> [''NSE'' \<mapsto> x]]"

definition four_basins :: results where
  "four_basins =
     [(''A'', nse_record (fl 0.5)), (''B'', nse_record (fl 0.6)),
      (''C'', nse_record (fl 0.7)), (''D'', nse_record (fl 0.8))]"



text \<open>A mapping in which a single basin has the metric.\<close>

definition one_basin :: results where
  "one_basin = [(''A'', nse_record (fl 0.5))]"

text \<open>A mapping with a basin record that has no \<^verbatim>\<open>"1D"\<close> entry.\<close>

definition no_resolution :: results where
  "no_resolution = [(''A'', nse_record (fl 0.5)), (''B'', Map.empty)]"

text \<open>The test results of the base run and of the finetuned run for one basin.\<close>

definition results_a :: results where
  "results_a = [(''B1'', nse_record (fl 0.602))]"

definition results_b :: results where
  "results_b = [(''B1'', nse_record (fl 0.717))]"

text \<open>
  Test results in which the record of the basin has no \<^verbatim>\<open>"1D"\<close> entry, and in which
  its \<^verbatim>\<open>"1D"\<close> record has no metric.
\<close>

definition results_no_1D :: results where
  "results_no_1D = [(''B1'', Map.empty)]"

definition results_no_metric :: results where
  "results_no_metric = [(''B1'', [''1D'' \<mapsto> Map.empty])]"

text \<open>A working directory, a run directory, and configuration documents.\<close>

definition work_dir :: path where
  "work_dir = Path ''/'' [''home'', ''nh'']"

definition run_dir :: path where
  "run_dir = Path [] [''runs'', ''base'']"

definition doc_terminated :: string where
  "doc_terminated = ''epochs: 10'' @ [nl]"

definition doc_unterminated :: string where
  "doc_unterminated = ''epochs: 10''"

section \<open>Properties of the arithmetic of doubles\<close>

lemma binade_eq:
  assumes "- 1022 \<le> e" and "e \<le> int k - 1022" and "pow2 e \<le> \<bar>x\<bar>"
    and "\<forall>j. e < j \<and> j \<le> int k - 1022 \<longrightarrow> \<not> pow2 j \<le> \<bar>x\<bar>"
  shows "binade x k = e"
  using assms
proof (induction k)
  case 0
  then show ?case by simp
next
  case (Suc k)
  show ?case
  proof (cases "e = int (Suc k) - 1022")
    case True
    with Suc.prems show ?thesis by simp
  next
    case False
    with Suc.prems have lt: "e < int (Suc k) - 1022" by simp
    with Suc.prems(4) have "\<not> pow2 (int (Suc k) - 1022) \<le> \<bar>x\<bar>" by simp
    moreover from lt Suc.prems have "binade x k = e"
      by (intro Suc.IH) auto
    ultimately show ?thesis by simp
  qed
qed

lemma pow2_powr: "pow2 e = 2 powr (real_of_int e)"
  by (cases "0 \<le> e") (simp_all add: pow2_def powr_realpow[symmetric] powr_minus field_simps)

lemma pow2_mono: "i \<le> j \<Longrightarrow> pow2 i \<le> pow2 j"
  by (simp add: pow2_powr)

lemma binade_between:
  assumes "- 1022 \<le> e" and "e \<le> 1023" and "pow2 e \<le> \<bar>x\<bar>" and "\<bar>x\<bar> < pow2 (e + 1)"
  shows "binade x 2045 = e"
proof (rule binade_eq)
  show "- 1022 \<le> e" by fact
  show "e \<le> int 2045 - 1022" using assms(2) by simp
  show "pow2 e \<le> \<bar>x\<bar>" by fact
  show "\<forall>j. e < j \<and> j \<le> int 2045 - 1022 \<longrightarrow> \<not> pow2 j \<le> \<bar>x\<bar>"
  proof (intro allI impI)
    fix j assume "e < j \<and> j \<le> int 2045 - 1022"
    then have "e + 1 \<le> j" by simp
    then have "pow2 (e + 1) \<le> pow2 j" by (rule pow2_mono)
    with assms(4) show "\<not> pow2 j \<le> \<bar>x\<bar>" by simp
  qed
qed

text \<open>
  The rounding at a tie, which goes to the even neighbour, and at the overflow
  threshold.
\<close>

lemma fl_tie_to_even: "fl (1 + 1 / 2 ^ 53) = Fin 1"
proof -
  have "binade (1 + 1 / 2 ^ 53) 2045 = 0" by (rule binade_between) (simp_all add: pow2_def)
  then show ?thesis by (simp add: fl_def Let_def pow2_def round_half_even_def)
qed

lemma fl_overflow: "fl (2 ^ 1024 - 2 ^ 970) = PInf"
proof -
  have "binade (2 ^ 1024 - 2 ^ 970) 2045 = 1023"
    by (rule binade_between) (simp_all add: pow2_def)
  then show ?thesis by (simp add: fl_def Let_def pow2_def round_half_even_def)
qed

lemma below_irrefl: "\<not> below x x"
  by (cases x) simp_all

lemma median_single: "median [x] = x"
  by (cases x) (simp_all add: median_def)


subsection \<open>The doubles of the concrete inputs\<close>

lemma fl_0_5: "fl 0.5 = Fin (1 / 2)"
proof -
  have "binade 0.5 2045 = - 1" by (rule binade_between) (simp_all add: pow2_def)
  then show ?thesis by (simp add: fl_def Let_def pow2_def round_half_even_def)
qed

lemma fl_0_6: "fl 0.6 = Fin (5404319552844595 / 2 ^ 53)"
proof -
  have "binade 0.6 2045 = - 1" by (rule binade_between) (simp_all add: pow2_def)
  then show ?thesis by (simp add: fl_def Let_def pow2_def round_half_even_def)
qed

lemma fl_0_7: "fl 0.7 = Fin (3152519739159347 / 2 ^ 52)"
proof -
  have "binade 0.7 2045 = - 1" by (rule binade_between) (simp_all add: pow2_def)
  then show ?thesis by (simp add: fl_def Let_def pow2_def round_half_even_def)
qed

lemma fl_0_8: "fl 0.8 = Fin (3602879701896397 / 2 ^ 52)"
proof -
  have "binade 0.8 2045 = - 1" by (rule binade_between) (simp_all add: pow2_def)
  then show ?thesis by (simp add: fl_def Let_def pow2_def round_half_even_def)
qed

lemma fl_0_65: "fl 0.65 = Fin (5854679515581645 / 2 ^ 53)"
proof -
  have "binade 0.65 2045 = - 1" by (rule binade_between) (simp_all add: pow2_def)
  then show ?thesis by (simp add: fl_def Let_def pow2_def round_half_even_def)
qed

lemma fl_middle_sum:
  "fl (5404319552844595 / 2 ^ 53 + 3152519739159347 / 2 ^ 52) = Fin (5854679515581644 / 2 ^ 52)"
proof -
  have "binade (5404319552844595 / 2 ^ 53 + 3152519739159347 / 2 ^ 52) 2045 = 0"
    by (rule binade_between) (simp_all add: pow2_def)
  then show ?thesis by (simp add: fl_def Let_def pow2_def round_half_even_def)
qed

lemma fl_middle_half: "fl (5854679515581644 / 2 ^ 52 / 2) = Fin (5854679515581644 / 2 ^ 53)"
proof -
  have "binade (5854679515581644 / 2 ^ 52 / 2) 2045 = - 1"
    by (rule binade_between) (simp_all add: pow2_def)
  then show ?thesis by (simp add: fl_def Let_def pow2_def round_half_even_def)
qed

lemma middle_mean:
  "mean2 (Fin (5404319552844595 / 2 ^ 53)) (Fin (3152519739159347 / 2 ^ 52))
     = Fin (5854679515581644 / 2 ^ 53)"
  by (simp only: mean2_def fadd.simps fl_middle_sum float64.case fl_middle_half)

lemma four_values_median:
  "median [Fin (1 / 2), Fin (5404319552844595 / 2 ^ 53),
           Fin (3152519739159347 / 2 ^ 52), Fin (3602879701896397 / 2 ^ 52)]
     = Fin (5854679515581644 / 2 ^ 53)"
proof -
  let ?xs = "[Fin (1 / 2), Fin (5404319552844595 / 2 ^ 53),
              Fin (3152519739159347 / 2 ^ 52), Fin (3602879701896397 / 2 ^ 52)]"
  have s: "sort_floats ?xs = ?xs" by simp
  have n: "length ?xs = 4" by simp
  have i1: "?xs ! (4 div 2 - 1) = Fin (5404319552844595 / 2 ^ 53)" by simp
  have i2: "?xs ! (4 div 2) = Fin (3152519739159347 / 2 ^ 52)" by simp
  have nn: "NaN \<notin> set ?xs" by simp
  have "median ?xs = mean2 (?xs ! (4 div 2 - 1)) (?xs ! (4 div 2))"
    unfolding median_def s Let_def n using nn by simp
  then show ?thesis unfolding i1 i2 middle_mean .
qed

section \<open>Properties of the basin selector\<close>



subsection \<open>Evaluation of the concrete inputs\<close>

lemma four_basins_doubles:
  "four_basins =
     [(''A'', nse_record (Fin (1 / 2))), (''B'', nse_record (Fin (5404319552844595 / 2 ^ 53))),
      (''C'', nse_record (Fin (3152519739159347 / 2 ^ 52))),
      (''D'', nse_record (Fin (3602879701896397 / 2 ^ 52)))]"
  by (simp only: four_basins_def fl_0_5 fl_0_6 fl_0_7 fl_0_8)


lemma four_basins_values:
  "metric_values ''NSE'' (map snd four_basins)
     = Inr [Fin (1 / 2), Fin (5404319552844595 / 2 ^ 53),
            Fin (3152519739159347 / 2 ^ 52), Fin (3602879701896397 / 2 ^ 52)]"
  by (simp add: four_basins_doubles nse_record_def)

lemma four_basins_median: "median_nse ''NSE'' four_basins = Inr (Fin (5854679515581644 / 2 ^ 53))"
  by (simp only: median_nse_def four_basins_values four_values_median sum.case)

lemma four_basins_loop:
  "select_loop ''NSE'' (Fin (5854679515581644 / 2 ^ 53)) four_basins [] = Inr [''A'', ''B'']"
  by (simp add: four_basins_doubles nse_record_def)

lemma four_basins_qualifying: "qualifying_basins ''NSE'' four_basins = Inr [''A'', ''B'']"
  by (simp only: qualifying_basins_def four_basins_median four_basins_loop sum.case)

lemma four_basins_selector: "basin_selector ''NSE'' four_basins r = Inr ([''A'', ''B''] ! (r mod 2))"
proof -
  have sel: "basin_selector ''NSE'' four_basins r = Inr (np_str ([''A'', ''B''] ! (r mod 2)))"
    by (simp add: basin_selector_def four_basins_qualifying random_choice_def numeral_2_eq_2)
  have a: "np_str ''A'' = ''A''" and b: "np_str ''B'' = ''B''"
    by (simp_all add: np_str_def nul_def)
  consider "r mod 2 = 0" | "r mod 2 = 1" by arith
  then have "np_str ([''A'', ''B''] ! (r mod 2)) = [''A'', ''B''] ! (r mod 2)"
    by cases (simp_all add: a b)
  with sel show ?thesis by simp
qed









lemma one_basin_values: "metric_values ''NSE'' (map snd one_basin) = Inr [fl 0.5]"
  by (simp add: one_basin_def nse_record_def)

lemma one_basin_qualifying: "qualifying_basins ''NSE'' one_basin = Inr []"
  by (simp add: qualifying_basins_def median_nse_def one_basin_def nse_record_def
      median_single below_irrefl)

subsection \<open>The score of the returned basin\<close>




subsection \<open>An empty qualifying list\<close>

lemma metric_values_present:
  "metric_values m vs = Inr xs \<Longrightarrow> v \<in> set vs \<Longrightarrow>
   \<exists>d. v ''1D'' = Some d \<and> (\<forall>x. d m = Some x \<longrightarrow> x \<in> set xs)"
proof (induction vs arbitrary: xs)
  case Nil
  then show ?case by simp
next
  case (Cons a vs)
  from Cons.prems(1) obtain d ys where a: "a ''1D'' = Some d"
    and ys: "metric_values m vs = Inr ys"
    and xs: "xs = (case d m of None \<Rightarrow> ys | Some x \<Rightarrow> x # ys)"
    by (auto split: option.splits sum.splits)
  show ?case
  proof (cases "v = a")
    case True
    with a xs show ?thesis by (auto split: option.splits)
  next
    case False
    with Cons.prems(2) have "v \<in> set vs" by simp
    from Cons.IH[OF ys this] xs show ?thesis by (auto split: option.splits)
  qed
qed

lemma select_loop_none:
  "\<forall>v\<in>snd ` set kvs. \<exists>d. v ''1D'' = Some d \<and> (\<forall>x. d m = Some x \<longrightarrow> \<not> below x med) \<Longrightarrow>
   select_loop m med kvs acc = Inr acc"
  by (induction kvs arbitrary: acc) (auto split: option.splits)

text \<open>
  C2, as stated, fails. With a single basin that has the metric, the median is that
  basin's own score, the qualifying list is empty, and the error of the selector is the
  \<^verbatim>\<open>ValueError\<close> of \<^verbatim>\<open>np.random.choice\<close> on the empty list, propagated as it is:
  the cell has no check of its own and no error of its own.
\<close>

theorem selector_no_descriptive_error_counterexample:
  "qualifying_basins ''NSE'' one_basin = Inr [] \<and>
   basin_selector ''NSE'' one_basin 0 = random_choice 0 ([] :: string list) \<and>
   basin_selector ''NSE'' one_basin 0 = Inl ValueError"
  by (simp add: basin_selector_def one_basin_qualifying random_choice_def)

text \<open>
  C2, amended. When every basin record has the \<^verbatim>\<open>"1D"\<close> entry and no basin qualifies
  (none of the scores found is below the median, which is so in particular when exactly
  one basin has the metric), the selector returns no value, for any draw of the random
  source: it fails with the \<^verbatim>\<open>ValueError\<close> of the random choice on an empty list.
\<close>

theorem selector_empty_choice:
  assumes "metric_values m (map snd vr) = Inr xs"
    and "length xs = 1 \<or> (\<forall>x\<in>set xs. \<not> below x (median xs))"
  shows "basin_selector m vr r = Inl ValueError"
proof -
  have nb: "\<forall>x\<in>set xs. \<not> below x (median xs)"
  proof (cases "length xs = 1")
    case True
    then obtain y where "xs = [y]" by (cases xs) auto
    then show ?thesis by (simp add: median_single below_irrefl)
  next
    case False
    with assms(2) show ?thesis by simp
  qed
  have "\<forall>v\<in>snd ` set vr. \<exists>d. v ''1D'' = Some d \<and> (\<forall>x. d m = Some x \<longrightarrow> \<not> below x (median xs))"
  proof
    fix v assume "v \<in> snd ` set vr"
    then have "v \<in> set (map snd vr)" by simp
    from metric_values_present[OF assms(1) this] nb
    show "\<exists>d. v ''1D'' = Some d \<and> (\<forall>x. d m = Some x \<longrightarrow> \<not> below x (median xs))" by blast
  qed
  then have "select_loop m (median xs) vr [] = Inr []" by (rule select_loop_none)
  with assms(1) show ?thesis
    by (simp add: basin_selector_def qualifying_basins_def median_nse_def random_choice_def)
qed

theorem selector_empty_choice_witness:
  "metric_values ''NSE'' (map snd one_basin) = Inr [fl 0.5] \<and> length [fl 0.5] = 1 \<and>
   basin_selector ''NSE'' one_basin 0 = Inl ValueError"
proof -
  have h: "length [fl 0.5] = 1 \<or> (\<forall>x\<in>set [fl 0.5]. \<not> below x (median [fl 0.5]))" by simp
  from one_basin_values selector_empty_choice[OF one_basin_values h, of 0] show ?thesis by simp
qed

subsection \<open>The temporal-resolution key\<close>

lemma metric_values_KeyError:
  "v \<in> set vs \<Longrightarrow> v ''1D'' = None \<Longrightarrow> metric_values m vs = Inl (KeyError ''1D'')"
  by (induction vs) (auto split: option.splits sum.splits)

lemma metric_values_total:
  "\<forall>v\<in>set vs. v ''1D'' \<noteq> None \<Longrightarrow> \<exists>xs. metric_values m vs = Inr xs"
  by (induction vs) (auto split: option.splits sum.splits)

lemma select_loop_total:
  "\<forall>v\<in>snd ` set kvs. v ''1D'' \<noteq> None \<Longrightarrow> \<exists>bs. select_loop m med kvs acc = Inr bs"
  by (induction kvs arbitrary: acc) (auto split: option.splits)

text \<open>
  C9. The selector subscripts every basin record with \<^verbatim>\<open>"1D"\<close> before it tests for
  the metric. If some basin record of the mapping has no \<^verbatim>\<open>"1D"\<close> entry, the selector
  fails with the lookup error of that key; if every basin record has it, the selector
  raises no lookup error at all.
\<close>

theorem selector_resolution_precondition:
  "((\<exists>v\<in>snd ` set vr. v ''1D'' = None) \<longrightarrow> basin_selector m vr r = Inl (KeyError ''1D'')) \<and>
   ((\<forall>v\<in>snd ` set vr. v ''1D'' \<noteq> None) \<longrightarrow> (\<forall>k. basin_selector m vr r \<noteq> Inl (KeyError k)))"
proof (intro conjI impI)
  assume "\<exists>v\<in>snd ` set vr. v ''1D'' = None"
  then obtain v where "v \<in> set (map snd vr)" and "v ''1D'' = None" by auto
  then have "metric_values m (map snd vr) = Inl (KeyError ''1D'')"
    by (rule metric_values_KeyError)
  then show "basin_selector m vr r = Inl (KeyError ''1D'')"
    by (simp add: basin_selector_def qualifying_basins_def median_nse_def)
next
  assume all: "\<forall>v\<in>snd ` set vr. v ''1D'' \<noteq> None"
  then have "\<forall>v\<in>set (map snd vr). v ''1D'' \<noteq> None" by simp
  from metric_values_total[OF this] obtain xs where xs: "metric_values m (map snd vr) = Inr xs" ..
  from select_loop_total[OF all] obtain bs where "select_loop m (median xs) vr [] = Inr bs" ..
  with xs have "basin_selector m vr r = random_choice r bs"
    by (simp add: basin_selector_def qualifying_basins_def median_nse_def)
  then show "\<forall>k. basin_selector m vr r \<noteq> Inl (KeyError k)"
    by (simp add: random_choice_def)
qed

theorem selector_resolution_precondition_witness:
  "(\<exists>v\<in>snd ` set no_resolution. v ''1D'' = None) \<and>
   basin_selector ''NSE'' no_resolution 0 = Inl (KeyError ''1D'') \<and>
   \<not> (\<exists>v\<in>snd ` set four_basins. v ''1D'' = None) \<and>
   (\<forall>k. basin_selector ''NSE'' four_basins 0 \<noteq> Inl (KeyError k))"
proof -
  have h1: "\<exists>v\<in>snd ` set no_resolution. v ''1D'' = None"
    by (simp add: no_resolution_def)
  have h2: "\<forall>v\<in>snd ` set four_basins. v ''1D'' \<noteq> None"
    by (simp add: four_basins_def nse_record_def)
  from h1 h2 selector_resolution_precondition[of no_resolution "''NSE''" 0]
    selector_resolution_precondition[of four_basins "''NSE''" 0]
  show ?thesis by blast
qed

subsection \<open>The selected basin\<close>




subsection \<open>The four-basin scenario\<close>

text \<open>
  C8, as stated, fails: the median that the cell computes for the scores
  \<^verbatim>\<open>{"A": 0.5, "B": 0.6, "C": 0.7, "D": 0.8}\<close> is not 0.65. The sum of the doubles 0.6
  and 0.7 lies halfway between two doubles and is rounded to the lower one, so the mean
  of the two middle scores is the double next below the double 0.65.
\<close>

theorem selector_scenario_median_counterexample:
  "median_nse ''NSE'' four_basins = Inr (Fin (5854679515581644 / 2 ^ 53)) \<and>
   fl 0.65 = Fin (5854679515581645 / 2 ^ 53) \<and>
   median_nse ''NSE'' four_basins \<noteq> Inr (fl 0.65) \<and>
   median_nse ''NSE'' four_basins \<noteq> Inr (Fin 0.65)"
  by (simp only: four_basins_median fl_0_65) simp

text \<open>
  C8, amended. For the scores \<^verbatim>\<open>{"A": 0.5, "B": 0.6, "C": 0.7, "D": 0.8}\<close> the computed
  median is the double \<^verbatim>\<open>0.6499999999999999\<close>, which is 5854679515581644 / 2^53, and the
  qualifying basins are A and B. For every draw of the random source the selector
  returns A or B, never C or D; the two indices a draw can fall on give the two basins,
  one each, so a uniform draw chooses uniformly among them.
\<close>

theorem selector_scenario:
  "median_nse ''NSE'' four_basins = Inr (Fin (5854679515581644 / 2 ^ 53)) \<and>
   qualifying_basins ''NSE'' four_basins = Inr [''A'', ''B''] \<and>
   (\<forall>r. basin_selector ''NSE'' four_basins r = Inr ([''A'', ''B''] ! (r mod 2))) \<and>
   (\<forall>r. basin_selector ''NSE'' four_basins r \<in> {Inr ''A'', Inr ''B''}) \<and>
   basin_selector ''NSE'' four_basins 0 = Inr ''A'' \<and>
   basin_selector ''NSE'' four_basins 1 = Inr ''B''"
proof -
  have "\<And>r. [''A'', ''B''] ! (r mod 2) \<in> {''A'', ''B''}"
  proof -
    fix r :: nat
    have "r mod 2 = 0 \<or> r mod 2 = 1" by arith
    then show "[''A'', ''B''] ! (r mod 2) \<in> {''A'', ''B''}" by auto
  qed
  then have "\<forall>r. basin_selector ''NSE'' four_basins r \<in> {Inr ''A'', Inr ''B''}"
    by (auto simp: four_basins_selector)
  then show ?thesis
    by (simp add: four_basins_median four_basins_qualifying four_basins_selector)
qed

section \<open>Properties of the files written by cell 11\<close>

lemma example_entry: "base_run_entry work_dir run_dir = ''base_run_dir: /home/nh/runs/base''"
  by (simp add: base_run_entry_def path_str_def absolute_def is_absolute_def work_dir_def run_dir_def)

lemma split_lines_Nil_iff: "split_lines cs = [] \<longleftrightarrow> cs = []"
  by (cases cs) (auto split: list.splits)

lemma split_lines_single: "nl \<notin> set e \<Longrightarrow> e \<noteq> [] \<Longrightarrow> split_lines e = [e]"
proof (induction e)
  case Nil
  then show ?case by simp
next
  case (Cons x xs)
  then show ?case by (cases "xs = []") auto
qed

lemma split_lines_new_line:
  assumes "nl \<notin> set e" and "e \<noteq> []" and "c = [] \<or> last c = nl"
  shows "split_lines (c @ e) = split_lines c @ [e]"
  using assms(3)
proof (induction c)
  case Nil
  show ?case by (simp add: split_lines_single[OF assms(1,2)])
next
  case (Cons x cs)
  show ?case
  proof (cases "cs = []")
    case True
    with Cons.prems show ?thesis by (simp add: split_lines_single[OF assms(1,2)])
  next
    case False
    with Cons.prems have "last cs = nl" by simp
    with Cons.IH have ih: "split_lines (cs @ e) = split_lines cs @ [e]" by simp
    from False obtain l ls where "split_lines cs = l # ls"
      by (cases "split_lines cs") (auto simp: split_lines_Nil_iff)
    with ih show ?thesis by simp
  qed
qed

lemma base_run_entry_line:
  assumes "nl \<notin> set (path_str (absolute cwd p))"
  shows "nl \<notin> set (base_run_entry cwd p)" and "base_run_entry cwd p \<noteq> []"
  using assms by (simp_all add: base_run_entry_def nl_def)

text \<open>
  C3, as stated, fails for a document whose last line has no line feed: the text is
  written right after the last character, so the last line that was there is changed
  (\<^verbatim>\<open>epochs: 10\<close> becomes \<^verbatim>\<open>epochs: 10base_run_dir: /home/nh/runs/base\<close>) and no
  line of the document gives a value to \<^verbatim>\<open>base_run_dir\<close>.
\<close>

theorem augmentation_unterminated_counterexample:
  "split_lines doc_unterminated = [''epochs: 10''] \<and>
   split_lines (file_content (config_augmentation work_dir run_dir [''finetune.yml'' \<mapsto> doc_unterminated])
                  ''finetune.yml'')
     = [''epochs: 10base_run_dir: /home/nh/runs/base''] \<and>
   key_lines ''base_run_dir''
     (file_content (config_augmentation work_dir run_dir [''finetune.yml'' \<mapsto> doc_unterminated])
        ''finetune.yml'') = []"
  by (simp add: config_augmentation_def append_file_def file_content_def example_entry
      doc_unterminated_def key_lines_def nl_def)

text \<open>
  C3, amended. For every configuration document that is empty or ends with a line feed,
  and every base-run directory whose absolute path has no line feed in it, the document
  after the augmentation is the old content followed by the text
  \<^verbatim>\<open>base_run_dir: \<close> and the absolute path of the base-run directory; its lines are the
  lines that were there, unchanged and in their order, followed by that one new line.
\<close>

theorem augmentation_appends_line:
  assumes "fs ''finetune.yml'' = Some c"
    and "c = [] \<or> last c = nl"
    and "nl \<notin> set (path_str (absolute cwd p))"
  shows "config_augmentation cwd p fs ''finetune.yml'' = Some (c @ base_run_entry cwd p) \<and>
         split_lines (c @ base_run_entry cwd p) = split_lines c @ [base_run_entry cwd p] \<and>
         base_run_entry cwd p = ''base_run_dir: '' @ path_str (absolute cwd p)"
proof -
  from assms(1) have "config_augmentation cwd p fs ''finetune.yml'' = Some (c @ base_run_entry cwd p)"
    by (simp add: config_augmentation_def append_file_def file_content_def)
  moreover from base_run_entry_line[OF assms(3)] assms(2)
  have "split_lines (c @ base_run_entry cwd p) = split_lines c @ [base_run_entry cwd p]"
    by (intro split_lines_new_line)
  ultimately show ?thesis by (simp add: base_run_entry_def)
qed

theorem augmentation_appends_line_witness:
  "[''finetune.yml'' \<mapsto> doc_terminated] ''finetune.yml'' = Some doc_terminated \<and>
   last doc_terminated = nl \<and>
   nl \<notin> set (path_str (absolute work_dir run_dir)) \<and>
   config_augmentation work_dir run_dir [''finetune.yml'' \<mapsto> doc_terminated] ''finetune.yml''
     = Some (doc_terminated @ ''base_run_dir: /home/nh/runs/base'') \<and>
   split_lines (doc_terminated @ ''base_run_dir: /home/nh/runs/base'')
     = [''epochs: 10'', ''base_run_dir: /home/nh/runs/base'']"
proof -
  have h1: "[''finetune.yml'' \<mapsto> doc_terminated] ''finetune.yml'' = Some doc_terminated" by simp
  have l: "last doc_terminated = nl" by (simp add: doc_terminated_def)
  then have h2: "doc_terminated = [] \<or> last doc_terminated = nl" by simp
  have h3: "nl \<notin> set (path_str (absolute work_dir run_dir))"
    by (simp add: path_str_def absolute_def is_absolute_def work_dir_def run_dir_def nl_def)
  have s: "split_lines doc_terminated = [''epochs: 10'']"
    by (simp add: doc_terminated_def nl_def)
  note t = augmentation_appends_line[where fs = "[''finetune.yml'' \<mapsto> doc_terminated]", OF h1 h2 h3]
  from t[THEN conjunct1]
  have c1: "config_augmentation work_dir run_dir [''finetune.yml'' \<mapsto> doc_terminated] ''finetune.yml''
     = Some (doc_terminated @ ''base_run_dir: /home/nh/runs/base'')"
    unfolding example_entry .
  from t[THEN conjunct2, THEN conjunct1]
  have c2: "split_lines (doc_terminated @ ''base_run_dir: /home/nh/runs/base'')
     = [''epochs: 10'', ''base_run_dir: /home/nh/runs/base'']"
    unfolding example_entry s by simp
  from h1 l h3 c1 c2 show ?thesis by blast
qed

text \<open>
  C4, as stated, fails: the cell writes no line feed, so the second entry starts on the
  line of the first. After two augmentations of a document ending with a line feed there
  is one new line, \<^verbatim>\<open>base_run_dir: /home/nh/runs/basebase_run_dir: /home/nh/runs/base\<close>,
  not two lines for the key.
\<close>

theorem augmentation_twice_counterexample:
  "split_lines (file_content
      (config_augmentation work_dir run_dir
         (config_augmentation work_dir run_dir [''finetune.yml'' \<mapsto> doc_terminated]))
      ''finetune.yml'')
     = [''epochs: 10'', ''base_run_dir: /home/nh/runs/basebase_run_dir: /home/nh/runs/base''] \<and>
   length (key_lines ''base_run_dir'' (file_content
      (config_augmentation work_dir run_dir
         (config_augmentation work_dir run_dir [''finetune.yml'' \<mapsto> doc_terminated]))
      ''finetune.yml'')) = 1"
  by (simp add: config_augmentation_def append_file_def file_content_def example_entry
      doc_terminated_def key_lines_def nl_def)

text \<open>
  C4, amended. Calling the augmentation twice appends the entry text twice, the second
  copy directly after the first with nothing between them; nothing is deduplicated.
\<close>

theorem augmentation_twice:
  "config_augmentation cwd p (config_augmentation cwd p fs) ''finetune.yml''
     = Some (file_content fs ''finetune.yml'' @ base_run_entry cwd p @ base_run_entry cwd p)"
  by (simp add: config_augmentation_def append_file_def file_content_def)

text \<open>
  C5. For every basin identifier and whatever the files held before, after the emission
  the content of \<^verbatim>\<open>finetune_basin.txt\<close> is exactly the identifier, with nothing before or
  after it; writing \<^verbatim>\<open>04122200\<close> gives a file whose whole content is \<^verbatim>\<open>04122200\<close>.
\<close>

theorem basin_list_content:
  "basin_list_emission basin fs ''finetune_basin.txt'' = Some basin \<and>
   file_content (basin_list_emission basin fs) ''finetune_basin.txt'' = basin \<and>
   file_content (basin_list_emission ''04122200'' fs) ''finetune_basin.txt'' = ''04122200''"
  by (simp add: basin_list_emission_def write_file_def file_content_def)

section \<open>Properties of the result comparison\<close>

text \<open>
  C6. When the basin is a key of both results mappings and both records hold the metric
  under \<^verbatim>\<open>"1D"\<close>, the comparison reports the pair of the two scores, the one of the
  first mapping first.
\<close>

theorem comparison_reports_both:
  assumes "map_of a basin = Some va" and "va ''1D'' = Some da" and "da m = Some x"
    and "map_of b basin = Some vb" and "vb ''1D'' = Some db" and "db m = Some y"
  shows "result_comparison a b basin m = Inr (x, y)"
  using assms by (simp add: result_comparison_def lookup_metric_def)

theorem comparison_reports_both_witness:
  "map_of results_a ''B1'' = Some (nse_record (fl 0.602)) \<and>
   map_of results_b ''B1'' = Some (nse_record (fl 0.717)) \<and>
   nse_record (fl 0.602) ''1D'' = Some [''NSE'' \<mapsto> fl 0.602] \<and>
   nse_record (fl 0.717) ''1D'' = Some [''NSE'' \<mapsto> fl 0.717] \<and>
   result_comparison results_a results_b ''B1'' ''NSE'' = Inr (fl 0.602, fl 0.717)"
proof -
  have a1: "map_of results_a ''B1'' = Some (nse_record (fl 0.602))" by (simp add: results_a_def)
  have a2: "nse_record (fl 0.602) ''1D'' = Some [''NSE'' \<mapsto> fl 0.602]" by (simp add: nse_record_def)
  have a3: "[''NSE'' \<mapsto> fl 0.602] ''NSE'' = Some (fl 0.602)" by simp
  have b1: "map_of results_b ''B1'' = Some (nse_record (fl 0.717))" by (simp add: results_b_def)
  have b2: "nse_record (fl 0.717) ''1D'' = Some [''NSE'' \<mapsto> fl 0.717]" by (simp add: nse_record_def)
  have b3: "[''NSE'' \<mapsto> fl 0.717] ''NSE'' = Some (fl 0.717)" by simp
  from a1 a2 b1 b2 comparison_reports_both[OF a1 a2 a3 b1 b2 b3] show ?thesis by blast
qed

text \<open>
  C7, as stated, fails: the error is the \<^verbatim>\<open>KeyError\<close> of the subscript, which carries
  the key only. The basin missing from the first mapping and the basin missing from the
  second give the same error, so the error does not say which mapping lacked the key.
\<close>

theorem comparison_error_counterexample:
  "result_comparison [] results_b ''B1'' ''NSE'' = Inl (KeyError ''B1'') \<and>
   result_comparison results_a [] ''B1'' ''NSE'' = Inl (KeyError ''B1'')"
  by (simp add: result_comparison_def lookup_metric_def results_a_def results_b_def nse_record_def)

text \<open>
  C7, amended. For every pair of results mappings, when the basin, the \<^verbatim>\<open>"1D"\<close> record
  of the basin or the metric is absent from either mapping, the comparison returns no
  pair and no default: it fails with a \<^verbatim>\<open>KeyError\<close> that carries the absent key, which
  is the key of the first subscript that fails, in the order basin, \<^verbatim>\<open>"1D"\<close>, metric,
  and the first mapping before the second. The error does not say which of the two
  mappings lacked the key.
\<close>

theorem comparison_missing_key:
  "(map_of a basin = None \<longrightarrow> result_comparison a b basin m = Inl (KeyError basin)) \<and>
   (\<forall>va. map_of a basin = Some va \<and> va ''1D'' = None \<longrightarrow>
      result_comparison a b basin m = Inl (KeyError ''1D'')) \<and>
   (\<forall>va da. map_of a basin = Some va \<and> va ''1D'' = Some da \<and> da m = None \<longrightarrow>
      result_comparison a b basin m = Inl (KeyError m)) \<and>
   (\<forall>va da x. map_of a basin = Some va \<and> va ''1D'' = Some da \<and> da m = Some x \<longrightarrow>
      (map_of b basin = None \<longrightarrow> result_comparison a b basin m = Inl (KeyError basin)) \<and>
      (\<forall>vb. map_of b basin = Some vb \<and> vb ''1D'' = None \<longrightarrow>
         result_comparison a b basin m = Inl (KeyError ''1D'')) \<and>
      (\<forall>vb db. map_of b basin = Some vb \<and> vb ''1D'' = Some db \<and> db m = None \<longrightarrow>
         result_comparison a b basin m = Inl (KeyError m)))"
  by (auto simp: result_comparison_def lookup_metric_def)

theorem comparison_missing_key_witness:
  "map_of results_a ''B2'' = None \<and>
   result_comparison results_a results_b ''B2'' ''NSE'' = Inl (KeyError ''B2'') \<and>
   result_comparison results_no_1D results_b ''B1'' ''NSE'' = Inl (KeyError ''1D'') \<and>
   result_comparison results_no_metric results_b ''B1'' ''NSE'' = Inl (KeyError ''NSE'') \<and>
   result_comparison results_a [] ''B1'' ''NSE'' = Inl (KeyError ''B1'') \<and>
   result_comparison results_a results_no_1D ''B1'' ''NSE'' = Inl (KeyError ''1D'') \<and>
   result_comparison results_a results_no_metric ''B1'' ''NSE'' = Inl (KeyError ''NSE'')"
proof -
  have a: "map_of results_a ''B1'' = Some (nse_record (fl 0.602))"
    "nse_record (fl 0.602) ''1D'' = Some [''NSE'' \<mapsto> fl 0.602]"
    "[''NSE'' \<mapsto> fl 0.602] ''NSE'' = Some (fl 0.602)"
    by (simp_all add: results_a_def nse_record_def)
  have h1: "map_of results_a ''B2'' = None" by (simp add: results_a_def)
  have h2: "map_of results_no_1D ''B1'' = Some Map.empty" "Map.empty ''1D'' = (None :: metrics option)"
    by (simp_all add: results_no_1D_def)
  have h3: "map_of results_no_metric ''B1'' = Some [''1D'' \<mapsto> Map.empty]"
    "[''1D'' \<mapsto> (Map.empty :: metrics)] ''1D'' = Some Map.empty"
    "(Map.empty :: metrics) ''NSE'' = None"
    by (simp_all add: results_no_metric_def)
  have h4: "map_of ([] :: results) ''B1'' = None" by simp
  note t = comparison_missing_key
  from h1 t[of results_a "''B2''" results_b "''NSE''"]
  have c1: "result_comparison results_a results_b ''B2'' ''NSE'' = Inl (KeyError ''B2'')"
    by blast
  from h2 t[of results_no_1D "''B1''" results_b "''NSE''"]
  have c2: "result_comparison results_no_1D results_b ''B1'' ''NSE'' = Inl (KeyError ''1D'')"
    by blast
  from h3 t[of results_no_metric "''B1''" results_b "''NSE''"]
  have c3: "result_comparison results_no_metric results_b ''B1'' ''NSE'' = Inl (KeyError ''NSE'')"
    by blast
  from a h4 t[of results_a "''B1''" "[]" "''NSE''"]
  have c4: "result_comparison results_a [] ''B1'' ''NSE'' = Inl (KeyError ''B1'')"
    by blast
  from a h2 t[of results_a "''B1''" results_no_1D "''NSE''"]
  have c5: "result_comparison results_a results_no_1D ''B1'' ''NSE'' = Inl (KeyError ''1D'')"
    by blast
  from a h3 t[of results_a "''B1''" results_no_metric "''NSE''"]
  have c6: "result_comparison results_a results_no_metric ''B1'' ''NSE'' = Inl (KeyError ''NSE'')"
    by blast
  from h1 c1 c2 c3 c4 c5 c6 show ?thesis by blast
qed

end
